theory Spec2Isabelle
  imports Main
begin

section \<open>The event hub consumer of \<open>eventhub/consumer/consumer.go\<close>\<close>

text \<open>
  The client dials a peer, opens one bidirectional stream, sends a registration request,
  waits for the first inbound frame (raced against a timer) and then runs a receive loop
  that forwards every frame to the caller's adapter.

  The embedding is sequential. Everything the Go code does to its surroundings (the
  transport, the stream, the adapter, standard output) is written into a list of
  \<open>action\<close>s in the order in which the code performs it. Everything the surroundings
  answer (whether the dial succeeds, what the stream delivers, what the adapter returns)
  is read from a \<open>world\<close> record and from the adapter value.
\<close>

subsection \<open>Errors and the ways a Go call can end\<close>

text \<open>
  A Go \<open>error\<close> value. \<open>EOF\<close> is the sentinel \<open>io.EOF\<close>, which the code recognises by
  identity (\<open>err == io.EOF\<close>); \<open>Err s\<close> is any other error value, with message \<open>s\<close>
  (\<open>fmt.Errorf\<close> produces such values). A nil \<open>error\<close> is \<open>None :: error option\<close>.
\<close>

datatype error = EOF | Err string

text \<open>
  A call returns a value, panics (a method call through a nil interface value), ends the
  process (\<open>grpclog.Fatalf\<close>), or never returns (a \<open>Recv\<close> on a stream that delivers
  nothing more).
\<close>

datatype 'a outcome = Returned 'a | Panicked | Exited | Blocked

subsection \<open>Frames\<close>

text \<open>
  The package \<open>eventhub/protos\<close> is not part of the sources at hand. The frame type is
  taken from the way \<open>register\<close> uses it: an \<open>EventHubMessage\<close> has one field \<open>Event\<close>,
  a oneof which the type switch of \<open>register\<close> separates into
  \<open>*EventHubMessage_RegisterEvent\<close>, \<open>*EventHubMessage_TransactionEvent\<close>, \<open>nil\<close> and
  anything else. The contents of an interest descriptor and of a transaction are opaque
  to the client. A frame that \<open>stream.Recv\<close> returns together with a nil error is a
  non-nil pointer.
\<close>

datatype InterestedEvent = InterestedEvent string

datatype isEventHubMessage_Event =
    EventHubMessage_RegisterEvent "InterestedEvent list"
  | EventHubMessage_TransactionEvent string
  | Event_nil
  | Event_other nat

datatype EventHubMessage = EventHubMessage (Event: isEventHubMessage_Event)

subsection \<open>Dial options\<close>

datatype TransportAuthenticator =
    NewClientTLSFromFile string string
  | NewClientTLSFromCert string

datatype DialOption =
    WithTransportCredentials TransportAuthenticator
  | WithTimeout int
  | WithBlock
  | WithInsecure

text \<open>\<open>time.Second * 3\<close>, in nanoseconds as \<open>time.Duration\<close> counts them.\<close>

definition defaultTimeout :: int where
  "defaultTimeout = 1000000000 * 3"

subsection \<open>What the code does, in order\<close>

datatype action =
    Dial string "DialOption list"
  | Chat
  | StreamSend EventHubMessage
  | StreamRecv "error + EventHubMessage"
  | StreamCloseSend
  | Printf string
  | AdapterGetInterestedEvents
  | AdapterRecv EventHubMessage "error option"
  | AdapterDone "error option"
  | Go_processEvents


fun is_AdapterDone :: "action \<Rightarrow> bool" where
  "is_AdapterDone (AdapterDone _) = True"
| "is_AdapterDone _ = False"


fun adapter_call :: "action \<Rightarrow> bool" where
  "adapter_call AdapterGetInterestedEvents = True"
| "adapter_call (AdapterRecv _ _) = True"
| "adapter_call (AdapterDone _) = True"
| "adapter_call _ = False"

subsection \<open>The surroundings\<close>

text \<open>
  \<open>GetBool\<close> and \<open>GetString\<close> are the viper configuration. \<open>TLSFromFile_err\<close> is the
  error of \<open>credentials.NewClientTLSFromFile\<close>, \<open>Dial_err\<close> that of \<open>grpc.Dial\<close>,
  \<open>Chat_err\<close> that of opening the stream, \<open>Send_err\<close> and \<open>CloseSend_err\<close> those of
  the stream's \<open>Send\<close> and \<open>CloseSend\<close>. \<open>inbound\<close> holds the results that the
  successive calls of \<open>stream.Recv\<close> will return; once it is empty, \<open>Recv\<close> does not
  return. \<open>recv_latency\<close> is the time, in nanoseconds from the moment \<open>register\<close>
  enters its \<open>select\<close>, after which the helper goroutine's \<open>Recv\<close> has returned and the
  helper signals on \<open>regChan\<close>; \<open>select_regChan\<close> is the choice that \<open>select\<close> makes
  when that signal and the timer are ready at the same instant.
\<close>

record world =
  GetBool :: "string \<Rightarrow> bool"
  GetString :: "string \<Rightarrow> string"
  TLSFromFile_err :: "string \<Rightarrow> string \<Rightarrow> error option"
  Dial_err :: "string \<Rightarrow> DialOption list \<Rightarrow> error option"
  Chat_err :: "error option"
  Send_err :: "error option"
  CloseSend_err :: "error option"
  inbound :: "(error + EventHubMessage) list"
  recv_latency :: int
  select_regChan :: bool

text \<open>
  \<open>5*time.Second\<close>, the argument of \<open>time.After\<close> in \<open>register\<close>, and the case of its
  \<open>select\<close> that fires: the helper's signal when it comes before the timer, the timer
  when the signal comes later.
\<close>

definition registrationTimeout :: int where
  "registrationTimeout = 5 * 1000000000"

definition reg_in_time :: "world \<Rightarrow> bool" where
  "reg_in_time w =
     (recv_latency w < registrationTimeout \<or>
      (recv_latency w = registrationTimeout \<and> select_regChan w))"

subsection \<open>The adapter interface and the client\<close>

text \<open>
  An \<open>EventAdapter\<close> is an object with a state of its own (\<open>self\<close>) and the three
  methods of the interface; each method may change that state. \<open>GetInterestedEvents\<close>
  returns a slice, which may be nil (\<open>None\<close>) or a possibly empty sequence
  (\<open>Some ies\<close>). The methods are taken to return: an adapter that panics or blocks is
  not described.
\<close>

record 's EventAdapter =
  self :: 's
  GetInterestedEvents :: "'s \<Rightarrow> InterestedEvent list option \<times> 's"
  Recv :: "'s \<Rightarrow> EventHubMessage \<Rightarrow> error option \<times> 's"
  Done :: "'s \<Rightarrow> error option \<Rightarrow> 's"

definition call_GetInterestedEvents ::
  "'s EventAdapter \<Rightarrow> InterestedEvent list option \<times> 's EventAdapter" where
  "call_GetInterestedEvents a =
     (case GetInterestedEvents a (self a) of (ies, s') \<Rightarrow> (ies, a\<lparr>self := s'\<rparr>))"

definition call_Recv ::
  "'s EventAdapter \<Rightarrow> EventHubMessage \<Rightarrow> error option \<times> 's EventAdapter" where
  "call_Recv a m = (case Recv a (self a) m of (err, s') \<Rightarrow> (err, a\<lparr>self := s'\<rparr>))"

definition call_Done :: "'s EventAdapter \<Rightarrow> error option \<Rightarrow> 's EventAdapter" where
  "call_Done a err = a\<lparr>self := Done a (self a) err\<rparr>"

text \<open>The stream handle; the \<open>stream\<close> field of a client is nil (\<open>None\<close>) or holds it.\<close>

datatype EventHub_ChatClient = ChatClient

record 's OBCEventClient =
  peerAddress :: string
  stream :: "EventHub_ChatClient option"
  adapter :: "'s EventAdapter option"

definition NewOBCEventHubClient :: "string \<Rightarrow> 's EventAdapter option \<Rightarrow> 's OBCEventClient" where
  "NewOBCEventHubClient addr ad = \<lparr>peerAddress = addr, stream = None, adapter = ad\<rparr>"

text \<open>
  Every operation returns how it ended, the actions it performed, and the client and the
  world as it leaves them.
\<close>

type_synonym ('a, 's) run = "'a outcome \<times> action list \<times> 's OBCEventClient \<times> world"

definition outcome_of :: "('a, 's) run \<Rightarrow> 'a outcome" where
  "outcome_of r = fst r"

definition actions_of :: "('a, 's) run \<Rightarrow> action list" where
  "actions_of r = fst (snd r)"

definition client_of :: "('a, 's) run \<Rightarrow> 's OBCEventClient" where
  "client_of r = fst (snd (snd r))"

definition world_of :: "('a, 's) run \<Rightarrow> world" where
  "world_of r = snd (snd (snd r))"

subsection \<open>processEvents\<close>

text \<open>
  The \<open>for\<close> loop of \<open>processEvents\<close>, by recursion on the results that \<open>stream.Recv\<close>
  is going to return. The arguments are \<open>ec.adapter\<close> and those results; the value is
  how the loop ended, its actions, the adapter afterwards and the results not yet read.
\<close>

fun recv_loop ::
  "'s EventAdapter option \<Rightarrow> (error + EventHubMessage) list \<Rightarrow>
     error option outcome \<times> action list \<times> 's EventAdapter option \<times> (error + EventHubMessage) list"
where
  "recv_loop ad [] = (Blocked, [], ad, [])"
| "recv_loop ad (Inl err # rest) =
     (if err = EOF then
        (case ad of
           Some a \<Rightarrow>
             (Returned None, [StreamRecv (Inl err), AdapterDone None],
              Some (call_Done a None), rest)
         | None \<Rightarrow> (Returned None, [StreamRecv (Inl err)], None, rest))
      else
        (case ad of
           Some a \<Rightarrow>
             (Returned (Some err), [StreamRecv (Inl err), AdapterDone (Some err)],
              Some (call_Done a (Some err)), rest)
         | None \<Rightarrow> (Returned (Some err), [StreamRecv (Inl err)], None, rest)))"
| "recv_loop ad (Inr inm # rest) =
     (case ad of
        Some a \<Rightarrow>
          (case call_Recv a inm of
             (err, a') \<Rightarrow>
               if err \<noteq> None
               then (Returned err, [StreamRecv (Inr inm), AdapterRecv inm err], Some a', rest)
               else (case recv_loop (Some a') rest of
                       (r, acts, ad', rest') \<Rightarrow>
                         (r, StreamRecv (Inr inm) # AdapterRecv inm err # acts, ad', rest')))
      | None \<Rightarrow>
          (case recv_loop None rest of
             (r, acts, ad', rest') \<Rightarrow> (r, StreamRecv (Inr inm) # acts, ad', rest')))"

text \<open>
  \<open>defer ec.stream.CloseSend()\<close> evaluates \<open>ec.stream.CloseSend\<close> when the \<open>defer\<close>
  statement runs, which panics on a nil stream, and calls it when the function returns;
  its result is dropped.
\<close>

definition processEvents :: "'s OBCEventClient \<Rightarrow> world \<Rightarrow> (error option, 's) run" where
  "processEvents ec w =
     (case stream ec of
        None \<Rightarrow> (Panicked, [], ec, w)
      | Some s \<Rightarrow>
          (case recv_loop (adapter ec) (inbound w) of
             (r, acts, ad', rest) \<Rightarrow>
               (r,
                acts @ (case r of Returned _ \<Rightarrow> [StreamCloseSend] | _ \<Rightarrow> []),
                ec\<lparr>adapter := ad'\<rparr>,
                w\<lparr>inbound := rest\<rparr>)))"

subsection \<open>Stop\<close>

definition Stop :: "'s OBCEventClient \<Rightarrow> world \<Rightarrow> (error option, 's) run" where
  "Stop ec w =
     (case stream ec of
        None \<Rightarrow> (Panicked, [], ec, w)
      | Some s \<Rightarrow> (Returned (CloseSend_err w), [StreamCloseSend], ec, w))"

subsection \<open>newEventHubClientConnectionWithAddress\<close>

datatype ClientConn = ClientConn

text \<open>
  The dial options, built in the order of the source. \<open>grpclog.Fatalf\<close> ends the
  process when the certificate file cannot be loaded.
\<close>

definition dial_opts :: "world \<Rightarrow> DialOption list outcome" where
  "dial_opts w =
     (if GetBool w ''peer.tls.enabled'' then
        (let sn = (if GetString w ''peer.tls.server-host-override'' \<noteq> []
                   then GetString w ''peer.tls.server-host-override'' else [])
         in if GetString w ''peer.tls.cert.file'' \<noteq> [] then
              (case TLSFromFile_err w (GetString w ''peer.tls.cert.file'') sn of
                 Some err \<Rightarrow> Exited
               | None \<Rightarrow>
                   Returned [WithTransportCredentials
                               (NewClientTLSFromFile (GetString w ''peer.tls.cert.file'') sn),
                             WithTimeout defaultTimeout, WithBlock, WithInsecure])
            else
              Returned [WithTransportCredentials (NewClientTLSFromCert sn),
                        WithTimeout defaultTimeout, WithBlock, WithInsecure])
      else Returned [WithTimeout defaultTimeout, WithBlock, WithInsecure])"

definition newEventHubClientConnectionWithAddress ::
  "string \<Rightarrow> world \<Rightarrow> (error + ClientConn) outcome \<times> action list" where
  "newEventHubClientConnectionWithAddress addr w =
     (case dial_opts w of
        Returned opts \<Rightarrow>
          (case Dial_err w addr opts of
             Some err \<Rightarrow> (Returned (Inl err), [Dial addr opts])
           | None \<Rightarrow> (Returned (Inr ClientConn), [Dial addr opts]))
      | Panicked \<Rightarrow> (Panicked, [])
      | Exited \<Rightarrow> (Exited, [])
      | Blocked \<Rightarrow> (Blocked, []))"

subsection \<open>register\<close>

text \<open>The \<open>Error()\<close> text of an error value, as \<open>%s\<close> prints it.\<close>

fun Error :: "error \<Rightarrow> string" where
  "Error EOF = ''EOF''"
| "Error (Err s) = s"

text \<open>The type switch on \<open>in.Event\<close>: the value that \<open>err\<close> holds after it.\<close>

fun classify :: "isEventHubMessage_Event \<Rightarrow> error option" where
  "classify (EventHubMessage_RegisterEvent _) = None"
| "classify (EventHubMessage_TransactionEvent _) =
     Some (Err ''invalid Transaction object for register'')"
| "classify Event_nil = Some (Err ''invalid nil object for register'')"
| "classify (Event_other _) = Some (Err ''invalid registration object'')"

text \<open>
  \<open>register\<close> sends the request and returns at once when the send fails. Otherwise a
  helper goroutine calls \<open>stream.Recv\<close> and the caller waits in a \<open>select\<close> for the
  helper's signal or for the timer. When the helper is first (\<open>reg_in_time\<close>, and the
  stream has something to deliver), \<open>err\<close> is the receive error, or what the type switch
  assigned. When the timer is first, the helper's \<open>Recv\<close> has been called but has not
  returned, so no \<open>StreamRecv\<close> action is recorded and \<open>inbound\<close> is untouched; what the
  helper does after \<open>register\<close> has returned is outside this sequential embedding.
\<close>

definition register ::
  "'s OBCEventClient \<Rightarrow> InterestedEvent list \<Rightarrow> world \<Rightarrow> (error option, 's) run" where
  "register ec ies w =
     (let emsg = EventHubMessage (EventHubMessage_RegisterEvent ies) in
      case stream ec of
        None \<Rightarrow> (Panicked, [], ec, w)
      | Some s \<Rightarrow>
          (case Send_err w of
             Some err \<Rightarrow>
               (Returned (Some err),
                [StreamSend emsg, Printf (''error on Register send '' @ Error err @ [CHR 0x0A])],
                ec, w)
           | None \<Rightarrow>
               (case inbound w of
                  r # rest \<Rightarrow>
                    if reg_in_time w then
                      (Returned (case r of
                                   Inl inerr \<Rightarrow> Some inerr
                                 | Inr inm \<Rightarrow> classify (Event inm)),
                       [StreamSend emsg, StreamRecv r], ec, w\<lparr>inbound := rest\<rparr>)
                    else
                      (Returned (Some (Err ''timeout waiting for registration'')),
                       [StreamSend emsg], ec, w)
                | [] \<Rightarrow>
                    (Returned (Some (Err ''timeout waiting for registration'')),
                     [StreamSend emsg], ec, w))))"

subsection \<open>Start\<close>

text \<open>
  \<open>Start\<close> dials first, then asks the adapter for its interests (through \<open>ec.adapter\<close>,
  which panics when that is nil), then opens the stream, registers, and launches the
  receive loop. A failed \<open>Chat\<close> leaves a nil stream in \<open>ec.stream\<close>.
\<close>

definition Start :: "'s OBCEventClient \<Rightarrow> world \<Rightarrow> (error option, 's) run" where
  "Start ec w =
     (case newEventHubClientConnectionWithAddress (peerAddress ec) w of (conn, acts) \<Rightarrow>
        (case conn of
           Panicked \<Rightarrow> (Panicked, acts, ec, w)
         | Exited \<Rightarrow> (Exited, acts, ec, w)
         | Blocked \<Rightarrow> (Blocked, acts, ec, w)
         | Returned (Inl err) \<Rightarrow>
             (Returned (Some (Err (''Could not create client conn to '' @ peerAddress ec))),
              acts, ec, w)
         | Returned (Inr c) \<Rightarrow>
             (case adapter ec of
                None \<Rightarrow> (Panicked, acts, ec, w)
              | Some a \<Rightarrow>
                  (case call_GetInterestedEvents a of (ies_opt, a') \<Rightarrow>
                     (case ies_opt of
                        None \<Rightarrow>
                          (Returned (Some (Err ''no interested events'')),
                           acts @ [AdapterGetInterestedEvents], ec\<lparr>adapter := Some a'\<rparr>, w)
                      | Some ies \<Rightarrow>
                          (case Chat_err w of
                             Some err \<Rightarrow>
                               (Returned (Some (Err (''Could not create client conn to ''
                                                      @ peerAddress ec))),
                                acts @ [AdapterGetInterestedEvents, Chat],
                                ec\<lparr>adapter := Some a', stream := None\<rparr>, w)
                           | None \<Rightarrow>
                               (case register (ec\<lparr>adapter := Some a', stream := Some ChatClient\<rparr>)
                                       ies w of
                                  (r, racts, ec', w') \<Rightarrow>
                                    (case r of
                                       Returned None \<Rightarrow>
                                         (Returned None,
                                          acts @ [AdapterGetInterestedEvents, Chat] @ racts
                                            @ [Go_processEvents],
                                          ec', w')
                                     | _ \<Rightarrow>
                                         (r, acts @ [AdapterGetInterestedEvents, Chat] @ racts,
                                          ec', w')))))))))"

subsection \<open>A peer, two adapters and a few frames to run the code on\<close>

definition block_events :: "InterestedEvent list" where
  "block_events = [InterestedEvent ''block-events'']"

definition ack :: EventHubMessage where
  "ack = EventHubMessage (EventHubMessage_RegisterEvent block_events)"

definition event_A :: EventHubMessage where
  "event_A = EventHubMessage (EventHubMessage_TransactionEvent ''A'')"

definition event_B :: EventHubMessage where
  "event_B = EventHubMessage (EventHubMessage_TransactionEvent ''B'')"

definition no_tls_bool :: "string \<Rightarrow> bool" where
  "no_tls_bool key = False"

definition no_tls_string :: "string \<Rightarrow> string" where
  "no_tls_string key = []"

definition cert_loads :: "string \<Rightarrow> string \<Rightarrow> error option" where
  "cert_loads file sn = None"

definition peer_reachable :: "string \<Rightarrow> DialOption list \<Rightarrow> error option" where
  "peer_reachable addr opts = None"

text \<open>
  A world without TLS in which the dial, the stream opening, \<open>Send\<close> and \<open>CloseSend\<close>
  succeed; the stream delivers \<open>frames\<close>, the first of them \<open>latency\<close> nanoseconds
  after the registration request.
\<close>

definition peer_world :: "(error + EventHubMessage) list \<Rightarrow> int \<Rightarrow> world" where
  "peer_world frames latency =
     \<lparr>GetBool = no_tls_bool, GetString = no_tls_string, TLSFromFile_err = cert_loads,
      Dial_err = peer_reachable, Chat_err = None, Send_err = None, CloseSend_err = None,
      inbound = frames, recv_latency = latency, select_regChan = True\<rparr>"

text \<open>
  An adapter that keeps the frames it was handed and the notifications it got. Its
  interests are \<open>ies\<close>; its \<open>Recv\<close> fails on the frame \<open>bad\<close>, if there is one.
\<close>

definition rec_GetInterestedEvents ::
  "InterestedEvent list option \<Rightarrow> action list \<Rightarrow> InterestedEvent list option \<times> action list" where
  "rec_GetInterestedEvents ies s = (ies, s)"

definition rec_Recv ::
  "EventHubMessage option \<Rightarrow> action list \<Rightarrow> EventHubMessage \<Rightarrow> error option \<times> action list" where
  "rec_Recv bad s m =
     (if bad = Some m then (Some (Err ''handler failed''), s @ [AdapterRecv m (Some (Err ''handler failed''))])
      else (None, s @ [AdapterRecv m None]))"

definition rec_Done :: "action list \<Rightarrow> error option \<Rightarrow> action list" where
  "rec_Done s err = s @ [AdapterDone err]"

definition recording_adapter ::
  "InterestedEvent list option \<Rightarrow> EventHubMessage option \<Rightarrow> action list EventAdapter" where
  "recording_adapter ies bad =
     \<lparr>self = [], GetInterestedEvents = rec_GetInterestedEvents ies,
      Recv = rec_Recv bad, Done = rec_Done\<rparr>"

text \<open>A client whose stream is open, as \<open>Start\<close> leaves it when it launches the loop.\<close>

definition streaming_client ::
  "action list EventAdapter option \<Rightarrow> action list OBCEventClient" where
  "streaming_client ad = \<lparr>peerAddress = ''peer:31315'', stream = Some ChatClient, adapter = ad\<rparr>"

section \<open>Properties\<close>

subsection \<open>The receive loop\<close>

lemma recv_loop_nil_adapter_calls:
  fixes ad' :: "'s EventAdapter option"
  shows "recv_loop None xs = (r, acts, ad', rest) \<Longrightarrow> filter adapter_call acts = [] \<and> ad' = None"
proof (induction xs arbitrary: r acts ad' rest)
  case Nil
  then show ?case by simp
next
  case (Cons x xs)
  show ?case
  proof (cases x)
    case (Inl err)
    with Cons.prems show ?thesis by (auto split: if_splits)
  next
    case (Inr inm)
    obtain r1 acts1 ad1 rest1
      where rl: "recv_loop (None :: 's EventAdapter option) xs = (r1, acts1, ad1, rest1)"
      by (cases "recv_loop (None :: 's EventAdapter option) xs") auto
    from Cons.IH [OF rl] Cons.prems Inr rl show ?thesis by auto
  qed
qed

lemma recv_loop_nil_drains:
  "recv_loop None (map Inr ms @ Inl e # rest) =
     (Returned (if e = EOF then None else Some e),
      map (\<lambda>m. StreamRecv (Inr m)) ms @ [StreamRecv (Inl e)], None, rest)"
  by (induction ms) auto


lemma recv_loop_handler_error:
  fixes ad :: "'s EventAdapter option"
  shows "recv_loop ad xs = (r, acts, ad', rest) \<Longrightarrow> AdapterRecv m (Some e) \<in> set acts \<Longrightarrow>
     r = Returned (Some e) \<and> filter is_AdapterDone acts = [] \<and>
     dropWhile (\<lambda>x. x \<noteq> AdapterRecv m (Some e)) acts = [AdapterRecv m (Some e)]"
proof (induction xs arbitrary: ad r acts ad' rest)
  case Nil
  then show ?case by simp
next
  case (Cons x xs)
  show ?case
  proof (cases x)
    case (Inl err)
    with Cons.prems show ?thesis by (auto split: if_splits option.splits)
  next
    case (Inr inm)
    show ?thesis
    proof (cases ad)
      case None
      obtain r1 acts1 ad1 rest1 where rl: "recv_loop ad xs = (r1, acts1, ad1, rest1)"
        by (cases "recv_loop ad xs") auto
      from Cons.prems Inr None rl
      have eq: "r = r1" "acts = StreamRecv (Inr inm) # acts1" by auto
      with Cons.prems(2) have mem: "AdapterRecv m (Some e) \<in> set acts1" by auto
      from Cons.IH [OF rl mem] eq show ?thesis by simp
    next
      case (Some a)
      obtain err a1 where cr: "call_Recv a inm = (err, a1)"
        by (cases "call_Recv a inm") auto
      show ?thesis
      proof (cases err)
        case (Some herr)
        with Cons.prems Inr cr \<open>ad = Some a\<close> show ?thesis by auto
      next
        case None
        obtain r1 acts1 ad1 rest1 where rl: "recv_loop (Some a1) xs = (r1, acts1, ad1, rest1)"
          by (cases "recv_loop (Some a1) xs") auto
        from Cons.prems Inr cr None rl \<open>ad = Some a\<close>
        have eq: "r = r1" "acts = StreamRecv (Inr inm) # AdapterRecv inm None # acts1"
          by auto
        with Cons.prems(2) have mem: "AdapterRecv m (Some e) \<in> set acts1" by auto
        from Cons.IH [OF rl mem] eq show ?thesis by simp
      qed
    qed
  qed
qed



subsection \<open>processEvents as a whole\<close>

lemma processEvents_unfold:
  "stream ec = Some s \<Longrightarrow> recv_loop (adapter ec) (inbound w) = (r, acts, ad', rest) \<Longrightarrow>
     processEvents ec w =
       (r, acts @ (case r of Returned _ \<Rightarrow> [StreamCloseSend] | _ \<Rightarrow> []),
        ec\<lparr>adapter := ad'\<rparr>, w\<lparr>inbound := rest\<rparr>)"
  by (simp add: processEvents_def)

lemma processEvents_nil_stream:
  "stream ec = None \<Longrightarrow> processEvents ec w = (Panicked, [], ec, w)"
  by (simp add: processEvents_def)

lemma closing_actions:
  "set (case r of Returned _ \<Rightarrow> [StreamCloseSend] | _ \<Rightarrow> []) \<subseteq> {StreamCloseSend}"
  by (cases r) auto

text \<open>The definitions to unfold when the code is run on the examples.\<close>

lemmas example_defs =
  streaming_client_def recording_adapter_def peer_world_def rec_Recv_def rec_Done_def
  rec_GetInterestedEvents_def call_Recv_def call_Done_def call_GetInterestedEvents_def
  event_A_def event_B_def ack_def block_events_def processEvents_def
  actions_of_def outcome_of_def



text \<open>
  Claim C6. In every run of \<open>processEvents\<close>: when the adapter's \<open>Recv\<close> has returned an
  error \<open>e\<close> for a frame, the loop returns \<open>e\<close>, \<open>Done\<close> is not called anywhere in the
  run, and after that \<open>Recv\<close> call nothing happens but the deferred \<open>CloseSend\<close>: no
  further frame is pulled from the stream.
\<close>

theorem processEvents_handler_error_no_Done:
  assumes "AdapterRecv m (Some e) \<in> set (actions_of (processEvents ec w))"
  shows "outcome_of (processEvents ec w) = Returned (Some e) \<and>
         filter is_AdapterDone (actions_of (processEvents ec w)) = [] \<and>
         dropWhile (\<lambda>x. x \<noteq> AdapterRecv m (Some e)) (actions_of (processEvents ec w)) =
           [AdapterRecv m (Some e), StreamCloseSend]"
proof (cases "stream ec")
  case None
  with assms show ?thesis
    by (simp add: processEvents_nil_stream actions_of_def)
next
  case (Some s)
  obtain r acts ad' rest where rl: "recv_loop (adapter ec) (inbound w) = (r, acts, ad', rest)"
    by (cases "recv_loop (adapter ec) (inbound w)") auto
  note pe = processEvents_unfold [OF Some rl]
  from assms pe closing_actions [of r] have mem: "AdapterRecv m (Some e) \<in> set acts"
    by (auto simp: actions_of_def)
  note L = recv_loop_handler_error [OF rl mem]
  from L have r: "r = Returned (Some e)" by simp
  from mem have "dropWhile (\<lambda>x. x \<noteq> AdapterRecv m (Some e)) (acts @ [StreamCloseSend]) =
      dropWhile (\<lambda>x. x \<noteq> AdapterRecv m (Some e)) acts @ [StreamCloseSend]"
    by (intro dropWhile_append1) auto
  with L pe r show ?thesis
    by (simp add: actions_of_def outcome_of_def)
qed

theorem processEvents_handler_error_no_Done_witness:
  "AdapterRecv event_B (Some (Err ''handler failed'')) \<in> set (actions_of (processEvents
     (streaming_client (Some (recording_adapter (Some block_events) (Some event_B))))
     (peer_world [Inr event_A, Inr event_B, Inr event_A, Inl EOF] 1000000))) \<and>
   outcome_of (processEvents
     (streaming_client (Some (recording_adapter (Some block_events) (Some event_B))))
     (peer_world [Inr event_A, Inr event_B, Inr event_A, Inl EOF] 1000000)) =
     Returned (Some (Err ''handler failed'')) \<and>
   filter is_AdapterDone (actions_of (processEvents
     (streaming_client (Some (recording_adapter (Some block_events) (Some event_B))))
     (peer_world [Inr event_A, Inr event_B, Inr event_A, Inl EOF] 1000000))) = []"
proof -
  let ?ec = "streaming_client (Some (recording_adapter (Some block_events) (Some event_B)))"
  let ?w = "peer_world [Inr event_A, Inr event_B, Inr event_A, Inl EOF] 1000000"
  have h: "AdapterRecv event_B (Some (Err ''handler failed'')) \<in>
             set (actions_of (processEvents ?ec ?w))"
    by (simp add: example_defs)
  from processEvents_handler_error_no_Done [OF h] h show ?thesis by simp
qed



text \<open>
  Claim C10. In every run of \<open>processEvents\<close> on a client with a nil adapter (and an open
  stream) no method of an adapter is called. When the stream delivers the frames \<open>ms\<close>
  and then fails with \<open>e\<close>, the loop reads all of \<open>ms\<close> and the failure, does nothing
  with them, and returns nil if \<open>e\<close> is \<open>io.EOF\<close> and \<open>e\<close> otherwise.
\<close>

theorem processEvents_nil_adapter_silent:
  assumes "adapter ec = None" and "stream ec = Some s"
  shows "filter adapter_call (actions_of (processEvents ec w)) = [] \<and>
         (\<forall>ms e rest. inbound w = map Inr ms @ Inl e # rest \<longrightarrow>
            outcome_of (processEvents ec w) = Returned (if e = EOF then None else Some e) \<and>
            actions_of (processEvents ec w) =
              map (\<lambda>m. StreamRecv (Inr m)) ms @ [StreamRecv (Inl e), StreamCloseSend])"
proof
  obtain r acts ad' rest where rl: "recv_loop (adapter ec) (inbound w) = (r, acts, ad', rest)"
    by (cases "recv_loop (adapter ec) (inbound w)") auto
  note pe = processEvents_unfold [OF assms(2) rl]
  from rl assms(1) have "filter adapter_call acts = []"
    using recv_loop_nil_adapter_calls [of "inbound w" r acts ad' rest] by simp
  moreover have "filter adapter_call (case r of Returned _ \<Rightarrow> [StreamCloseSend] | _ \<Rightarrow> []) = []"
    by (cases r) auto
  ultimately show "filter adapter_call (actions_of (processEvents ec w)) = []"
    using pe by (simp add: actions_of_def)
next
  show "\<forall>ms e rest. inbound w = map Inr ms @ Inl e # rest \<longrightarrow>
            outcome_of (processEvents ec w) = Returned (if e = EOF then None else Some e) \<and>
            actions_of (processEvents ec w) =
              map (\<lambda>m. StreamRecv (Inr m)) ms @ [StreamRecv (Inl e), StreamCloseSend]"
    using assms
    by (simp add: processEvents_def recv_loop_nil_drains actions_of_def outcome_of_def)
qed

theorem processEvents_nil_adapter_silent_witness:
  "adapter (streaming_client None) = None \<and>
   stream (streaming_client None) = Some ChatClient \<and>
   inbound (peer_world [Inr event_A, Inl (Err ''reset''), Inr event_B] 1000000) =
     map Inr [event_A] @ Inl (Err ''reset'') # [Inr event_B] \<and>
   outcome_of (processEvents (streaming_client None)
     (peer_world [Inr event_A, Inl (Err ''reset''), Inr event_B] 1000000)) =
     Returned (Some (Err ''reset'')) \<and>
   actions_of (processEvents (streaming_client None)
     (peer_world [Inr event_A, Inl (Err ''reset''), Inr event_B] 1000000)) =
     [StreamRecv (Inr event_A), StreamRecv (Inl (Err ''reset'')), StreamCloseSend]"
proof -
  let ?ec = "streaming_client None :: action list OBCEventClient"
  let ?w = "peer_world [Inr event_A, Inl (Err ''reset''), Inr event_B] 1000000"
  have h1: "adapter ?ec = None" and h2: "stream ?ec = Some ChatClient"
    by (simp_all add: streaming_client_def)
  have h3: "inbound ?w = map Inr [event_A] @ Inl (Err ''reset'') # [Inr event_B]"
    by (simp add: peer_world_def)
  from processEvents_nil_adapter_silent [OF h1 h2, of ?w]
  have "inbound ?w = map Inr [event_A] @ Inl (Err ''reset'') # [Inr event_B] \<longrightarrow>
          outcome_of (processEvents ?ec ?w) =
            Returned (if Err ''reset'' = EOF then None else Some (Err ''reset'')) \<and>
          actions_of (processEvents ?ec ?w) =
            map (\<lambda>m. StreamRecv (Inr m)) [event_A] @ [StreamRecv (Inl (Err ''reset'')), StreamCloseSend]"
    by blast
  with h1 h2 h3 show ?thesis by simp
qed

subsection \<open>register and Start, step by step\<close>

lemma register_unfold:
  "stream ec = Some s \<Longrightarrow> Send_err w = None \<Longrightarrow>
     register ec ies w =
       (case inbound w of
          r # rest \<Rightarrow>
            if reg_in_time w then
              (Returned (case r of Inl inerr \<Rightarrow> Some inerr | Inr inm \<Rightarrow> classify (Event inm)),
               [StreamSend (EventHubMessage (EventHubMessage_RegisterEvent ies)), StreamRecv r],
               ec, w\<lparr>inbound := rest\<rparr>)
            else
              (Returned (Some (Err ''timeout waiting for registration'')),
               [StreamSend (EventHubMessage (EventHubMessage_RegisterEvent ies))], ec, w)
        | [] \<Rightarrow>
            (Returned (Some (Err ''timeout waiting for registration'')),
             [StreamSend (EventHubMessage (EventHubMessage_RegisterEvent ies))], ec, w))"
  by (simp add: register_def Let_def)

lemma register_timeout:
  "stream ec = Some s \<Longrightarrow> Send_err w = None \<Longrightarrow> \<not> reg_in_time w \<or> inbound w = [] \<Longrightarrow>
     register ec ies w =
       (Returned (Some (Err ''timeout waiting for registration'')),
        [StreamSend (EventHubMessage (EventHubMessage_RegisterEvent ies))], ec, w)"
  by (auto simp: register_unfold split: list.splits)

lemma dial_succeeds:
  "dial_opts w = Returned opts \<Longrightarrow> Dial_err w addr opts = None \<Longrightarrow>
     newEventHubClientConnectionWithAddress addr w = (Returned (Inr ClientConn), [Dial addr opts])"
  by (simp add: newEventHubClientConnectionWithAddress_def)



lemma Start_after_chat:
  "dial_opts w = Returned opts \<Longrightarrow> Dial_err w (peerAddress ec) opts = None \<Longrightarrow>
   adapter ec = Some a \<Longrightarrow> call_GetInterestedEvents a = (Some ies, a') \<Longrightarrow>
   Chat_err w = None \<Longrightarrow>
   register (ec\<lparr>adapter := Some a', stream := Some ChatClient\<rparr>) ies w = (r, racts, ec', w') \<Longrightarrow>
     Start ec w =
       (r,
        [Dial (peerAddress ec) opts, AdapterGetInterestedEvents, Chat] @ racts
          @ (if r = Returned None then [Go_processEvents] else []),
        ec', w')"
  by (cases r) (auto simp: Start_def dial_succeeds split: option.splits)

lemma Start_nil_adapter_panics:
  "dial_opts w = Returned opts \<Longrightarrow> Dial_err w (peerAddress ec) opts = None \<Longrightarrow>
   adapter ec = None \<Longrightarrow> Start ec w = (Panicked, [Dial (peerAddress ec) opts], ec, w)"
  by (simp add: Start_def dial_succeeds)

lemma Stop_nil_stream:
  "stream ec = None \<Longrightarrow> Stop ec w = (Panicked, [], ec, w)"
  by (simp add: Stop_def)

text \<open>
  The loop is launched exactly when \<open>Start\<close> returns nil, and then on a client that has
  both a stream and an adapter.
\<close>

lemma Start_launches_loop_iff:
  "Go_processEvents \<in> set (actions_of (Start ec w)) \<longleftrightarrow> outcome_of (Start ec w) = Returned None"
  by (auto simp: Start_def register_def newEventHubClientConnectionWithAddress_def Let_def
        actions_of_def outcome_of_def
      split: outcome.splits sum.splits option.splits prod.splits list.splits if_splits)

lemma Start_launches_loop_state:
  "outcome_of (Start ec w) = Returned None \<Longrightarrow>
     stream (client_of (Start ec w)) = Some ChatClient \<and> adapter (client_of (Start ec w)) \<noteq> None"
  by (auto simp: Start_def register_def newEventHubClientConnectionWithAddress_def Let_def
        client_of_def outcome_of_def
      split: outcome.splits sum.splits option.splits prod.splits list.splits if_splits)

text \<open>
  A \<open>Start\<close> that fails before it has a stream (no \<open>Chat\<close>, or a failed one) leaves the
  \<open>stream\<close> field nil, and \<open>Stop\<close> on that client panics.
\<close>

lemma Start_without_stream_leaves_nil:
  "stream ec = None \<Longrightarrow> Chat \<notin> set (actions_of (Start ec w)) \<or> Chat_err w \<noteq> None \<Longrightarrow>
     stream (client_of (Start ec w)) = None"
  by (auto simp: Start_def newEventHubClientConnectionWithAddress_def
        client_of_def actions_of_def
      split: outcome.splits sum.splits option.splits prod.splits)

lemma Stop_after_Start_without_stream:
  "stream ec = None \<Longrightarrow> Chat \<notin> set (actions_of (Start ec w)) \<or> Chat_err w \<noteq> None \<Longrightarrow>
     outcome_of (Stop (client_of (Start ec w)) w') = Panicked"
  by (simp add: Start_without_stream_leaves_nil Stop_nil_stream outcome_of_def)

subsection \<open>The code run on the examples\<close>

lemmas start_defs =
  Start_def register_def newEventHubClientConnectionWithAddress_def dial_opts_def
  NewOBCEventHubClient_def no_tls_bool_def no_tls_string_def cert_loads_def
  peer_reachable_def defaultTimeout_def reg_in_time_def registrationTimeout_def

text \<open>
  The peer acknowledges, sends \<open>A\<close> and \<open>B\<close> and closes: \<open>Start\<close> returns nil, and the
  loop it launches calls \<open>Recv(A)\<close>, \<open>Recv(B)\<close>, \<open>Done(nil)\<close>.
\<close>

lemma subscription_ack_A_B_EOF:
  "outcome_of (Start (NewOBCEventHubClient ''peer:31315''
                        (Some (recording_adapter (Some block_events) None)))
                 (peer_world [Inr ack, Inr event_A, Inr event_B, Inl EOF] 1000000)) = Returned None \<and>
   filter adapter_call
     (actions_of (processEvents
        (client_of (Start (NewOBCEventHubClient ''peer:31315''
                             (Some (recording_adapter (Some block_events) None)))
                      (peer_world [Inr ack, Inr event_A, Inr event_B, Inl EOF] 1000000)))
        (world_of (Start (NewOBCEventHubClient ''peer:31315''
                            (Some (recording_adapter (Some block_events) None)))
                     (peer_world [Inr ack, Inr event_A, Inr event_B, Inl EOF] 1000000))))) =
     [AdapterRecv event_A None, AdapterRecv event_B None, AdapterDone None]"
  by (simp add: start_defs example_defs client_of_def world_of_def)

text \<open>The peer sends an event before any acknowledgement: \<open>Start\<close> fails, no loop.\<close>

lemma subscription_event_before_ack:
  "Start (NewOBCEventHubClient ''peer:31315''
            (Some (recording_adapter (Some block_events) None)))
     (peer_world [Inr event_A] 1000000) =
     (Returned (Some (Err ''invalid Transaction object for register'')),
      [Dial ''peer:31315'' [WithTimeout 3000000000, WithBlock, WithInsecure],
       AdapterGetInterestedEvents, Chat,
       StreamSend (EventHubMessage (EventHubMessage_RegisterEvent block_events)),
       StreamRecv (Inr event_A)],
      \<lparr>peerAddress = ''peer:31315'', stream = Some ChatClient,
       adapter = Some (recording_adapter (Some block_events) None)\<rparr>,
      peer_world [] 1000000)"
  by (simp add: start_defs peer_world_def recording_adapter_def rec_GetInterestedEvents_def
        call_GetInterestedEvents_def event_A_def)

text \<open>An adapter with an empty, non-nil interest sequence is registered like any other.\<close>

lemma Start_empty_interests_registers:
  "Start (NewOBCEventHubClient ''peer:31315'' (Some (recording_adapter (Some []) None)))
     (peer_world [Inr ack] 1000000) =
     (Returned None,
      [Dial ''peer:31315'' [WithTimeout 3000000000, WithBlock, WithInsecure],
       AdapterGetInterestedEvents, Chat,
       StreamSend (EventHubMessage (EventHubMessage_RegisterEvent [])),
       StreamRecv (Inr ack), Go_processEvents],
      \<lparr>peerAddress = ''peer:31315'', stream = Some ChatClient,
       adapter = Some (recording_adapter (Some []) None)\<rparr>,
      peer_world [] 1000000)"
  by (simp add: start_defs peer_world_def recording_adapter_def rec_GetInterestedEvents_def
        call_GetInterestedEvents_def ack_def)

subsection \<open>Start, register and Stop\<close>




text \<open>
  Claim C3 asks that \<open>Stop\<close> on a client without a stream return an error. On a client
  fresh from \<open>NewOBCEventHubClient\<close>, whose \<open>stream\<close> is nil, \<open>Stop\<close> calls
  \<open>CloseSend\<close> through the nil interface value and panics; it returns nothing.
\<close>

theorem Stop_without_stream_panics:
  "outcome_of (Stop (NewOBCEventHubClient addr ad) w) = Panicked"
  by (simp add: Stop_def NewOBCEventHubClient_def outcome_of_def)

text \<open>
  Claim C4. Let the dial succeed, the adapter name its interests \<open>ies\<close>, the stream open
  and the registration request be sent. When the helper has no frame to report within
  five seconds (the first result of \<open>Recv\<close> takes more than 5000000000 ns, or the stream
  never delivers anything), the timer case of the \<open>select\<close> fires: \<open>register\<close> returns the error \<open>timeout waiting for registration\<close>, \<open>Start\<close> returns
  that error, and the run of \<open>Start\<close> ends with the send of the request:
  \<open>go ec.processEvents()\<close> is not reached and \<open>Done\<close> is not called.
\<close>

theorem Start_registration_timeout:
  assumes "dial_opts w = Returned opts" and "Dial_err w (peerAddress ec) opts = None"
    and "adapter ec = Some a" and "call_GetInterestedEvents a = (Some ies, a')"
    and "Chat_err w = None" and "Send_err w = None"
    and "5000000000 < recv_latency w \<or> inbound w = []"
  shows "outcome_of (register (ec\<lparr>adapter := Some a', stream := Some ChatClient\<rparr>) ies w) =
           Returned (Some (Err ''timeout waiting for registration'')) \<and>
         outcome_of (Start ec w) = Returned (Some (Err ''timeout waiting for registration'')) \<and>
         actions_of (Start ec w) =
           [Dial (peerAddress ec) opts, AdapterGetInterestedEvents, Chat,
            StreamSend (EventHubMessage (EventHubMessage_RegisterEvent ies))] \<and>
         Go_processEvents \<notin> set (actions_of (Start ec w)) \<and>
         filter is_AdapterDone (actions_of (Start ec w)) = []"
proof -
  let ?ec = "ec\<lparr>adapter := Some a', stream := Some ChatClient\<rparr>"
  have reg: "register ?ec ies w =
       (Returned (Some (Err ''timeout waiting for registration'')),
        [StreamSend (EventHubMessage (EventHubMessage_RegisterEvent ies))], ?ec, w)"
    using assms(6,7)
    by (intro register_timeout) (auto simp: reg_in_time_def registrationTimeout_def)
  from Start_after_chat [OF assms(1-5) reg] reg show ?thesis
    by (simp add: outcome_of_def actions_of_def)
qed

theorem Start_registration_timeout_witness:
  "dial_opts (peer_world [Inr ack, Inr event_A] 6000000000) =
     Returned [WithTimeout 3000000000, WithBlock, WithInsecure] \<and>
   Dial_err (peer_world [Inr ack, Inr event_A] 6000000000)
     (peerAddress (NewOBCEventHubClient ''peer:31315''
        (Some (recording_adapter (Some block_events) None))))
     [WithTimeout 3000000000, WithBlock, WithInsecure] = None \<and>
   adapter (NewOBCEventHubClient ''peer:31315''
     (Some (recording_adapter (Some block_events) None))) =
     Some (recording_adapter (Some block_events) None) \<and>
   call_GetInterestedEvents (recording_adapter (Some block_events) None) =
     (Some block_events, recording_adapter (Some block_events) None) \<and>
   Chat_err (peer_world [Inr ack, Inr event_A] 6000000000) = None \<and>
   Send_err (peer_world [Inr ack, Inr event_A] 6000000000) = None \<and>
   5000000000 < recv_latency (peer_world [Inr ack, Inr event_A] 6000000000) \<and>
   outcome_of (Start (NewOBCEventHubClient ''peer:31315''
       (Some (recording_adapter (Some block_events) None)))
     (peer_world [Inr ack, Inr event_A] 6000000000)) =
     Returned (Some (Err ''timeout waiting for registration'')) \<and>
   Go_processEvents \<notin> set (actions_of (Start (NewOBCEventHubClient ''peer:31315''
       (Some (recording_adapter (Some block_events) None)))
     (peer_world [Inr ack, Inr event_A] 6000000000))) \<and>
   filter is_AdapterDone (actions_of (Start (NewOBCEventHubClient ''peer:31315''
       (Some (recording_adapter (Some block_events) None)))
     (peer_world [Inr ack, Inr event_A] 6000000000))) = []"
proof -
  let ?a = "recording_adapter (Some block_events) None"
  let ?ec = "NewOBCEventHubClient ''peer:31315'' (Some ?a)"
  let ?w = "peer_world [Inr ack, Inr event_A] 6000000000"
  let ?opts = "[WithTimeout 3000000000, WithBlock, WithInsecure]"
  have h1: "dial_opts ?w = Returned ?opts"
    by (simp add: dial_opts_def peer_world_def no_tls_bool_def defaultTimeout_def)
  have h2: "Dial_err ?w (peerAddress ?ec) ?opts = None"
    by (simp add: peer_world_def peer_reachable_def)
  have h3: "adapter ?ec = Some ?a"
    by (simp add: NewOBCEventHubClient_def)
  have h4: "call_GetInterestedEvents ?a = (Some block_events, ?a)"
    by (simp add: call_GetInterestedEvents_def recording_adapter_def rec_GetInterestedEvents_def)
  have h5: "Chat_err ?w = None" and h6: "Send_err ?w = None"
    by (simp_all add: peer_world_def)
  have h7: "5000000000 < recv_latency ?w \<or> inbound ?w = []"
    by (simp add: peer_world_def)
  have h7': "5000000000 < recv_latency ?w"
    by (simp add: peer_world_def)
  from Start_registration_timeout [OF h1 h2 h3 h4 h5 h6 h7] h1 h2 h3 h4 h5 h6 h7'
  show ?thesis by simp
qed

text \<open>
  Claim C5. When the request has been sent and the first inbound frame \<open>m\<close> is reported
  before the timer fires, \<open>register\<close> returns nil for a \<open>RegisterEvent\<close>, the error
  \<open>invalid Transaction object for register\<close> for a \<open>TransactionEvent\<close>, the error
  \<open>invalid nil object for register\<close> for a frame whose \<open>Event\<close> is nil, and the error
  \<open>invalid registration object\<close> for any other variant; the outcome is exactly one of
  these four.
\<close>

theorem register_classifies_first_frame:
  assumes "stream ec = Some s" and "Send_err w = None" and "reg_in_time w"
    and "inbound w = Inr m # rest"
  shows "outcome_of (register ec ies w) =
           Returned (case Event m of
                       EventHubMessage_RegisterEvent _ \<Rightarrow> None
                     | EventHubMessage_TransactionEvent _ \<Rightarrow>
                         Some (Err ''invalid Transaction object for register'')
                     | Event_nil \<Rightarrow> Some (Err ''invalid nil object for register'')
                     | Event_other _ \<Rightarrow> Some (Err ''invalid registration object'')) \<and>
         length (filter (\<lambda>out. outcome_of (register ec ies w) = out)
                   [Returned None,
                    Returned (Some (Err ''invalid Transaction object for register'')),
                    Returned (Some (Err ''invalid nil object for register'')),
                    Returned (Some (Err ''invalid registration object''))]) = 1"
  using assms by (cases "Event m") (simp_all add: register_unfold outcome_of_def)

theorem register_classifies_first_frame_witness:
  "stream (streaming_client (Some (recording_adapter (Some block_events) None))) =
     Some ChatClient \<and>
   Send_err (peer_world [Inr event_A, Inr event_B] 1000000) = None \<and>
   reg_in_time (peer_world [Inr event_A, Inr event_B] 1000000) \<and>
   inbound (peer_world [Inr event_A, Inr event_B] 1000000) = Inr event_A # [Inr event_B] \<and>
   outcome_of (register (streaming_client (Some (recording_adapter (Some block_events) None)))
       block_events (peer_world [Inr event_A, Inr event_B] 1000000)) =
     Returned (Some (Err ''invalid Transaction object for register''))"
proof -
  let ?ec = "streaming_client (Some (recording_adapter (Some block_events) None))"
  let ?w = "peer_world [Inr event_A, Inr event_B] 1000000"
  have h1: "stream ?ec = Some ChatClient"
    by (simp add: streaming_client_def)
  have h2: "Send_err ?w = None" and h3: "reg_in_time ?w"
    and h4: "inbound ?w = Inr event_A # [Inr event_B]"
    by (simp_all add: peer_world_def reg_in_time_def registrationTimeout_def)
  from register_classifies_first_frame [OF h1 h2 h3 h4, of block_events] h1 h2 h3 h4
  show ?thesis by (simp add: event_A_def)
qed

text \<open>
  Claim C9. When the first inbound frame, reported before the timer fires, is a
  \<open>RegisterEvent\<close>, \<open>register\<close> returns nil whatever interests \<open>acked\<close> the frame
  carries and whatever interests \<open>ies\<close> were sent: the two are never compared.
\<close>

theorem register_accepts_any_ack:
  assumes "stream ec = Some s" and "Send_err w = None" and "reg_in_time w"
    and "inbound w = Inr (EventHubMessage (EventHubMessage_RegisterEvent acked)) # rest"
  shows "outcome_of (register ec ies w) = Returned None"
  using assms by (simp add: register_unfold outcome_of_def)

theorem register_accepts_any_ack_witness:
  "stream (streaming_client (Some (recording_adapter (Some block_events) None))) =
     Some ChatClient \<and>
   Send_err (peer_world
     [Inr (EventHubMessage (EventHubMessage_RegisterEvent [InterestedEvent ''chaincode-events'']))]
     1000000) = None \<and>
   reg_in_time (peer_world
     [Inr (EventHubMessage (EventHubMessage_RegisterEvent [InterestedEvent ''chaincode-events'']))]
     1000000) \<and>
   inbound (peer_world
     [Inr (EventHubMessage (EventHubMessage_RegisterEvent [InterestedEvent ''chaincode-events'']))]
     1000000) =
     Inr (EventHubMessage (EventHubMessage_RegisterEvent [InterestedEvent ''chaincode-events'']))
       # [] \<and>
   outcome_of (register (streaming_client (Some (recording_adapter (Some block_events) None)))
       block_events
       (peer_world
         [Inr (EventHubMessage (EventHubMessage_RegisterEvent
                 [InterestedEvent ''chaincode-events'']))]
         1000000)) = Returned None"
proof -
  let ?ec = "streaming_client (Some (recording_adapter (Some block_events) None))"
  let ?w = "peer_world
     [Inr (EventHubMessage (EventHubMessage_RegisterEvent [InterestedEvent ''chaincode-events'']))]
     1000000"
  have h1: "stream ?ec = Some ChatClient"
    by (simp add: streaming_client_def)
  have h2: "Send_err ?w = None" and h3: "reg_in_time ?w"
    and h4: "inbound ?w =
       Inr (EventHubMessage (EventHubMessage_RegisterEvent [InterestedEvent ''chaincode-events'']))
         # []"
    by (simp_all add: peer_world_def reg_in_time_def registrationTimeout_def)
  from register_accepts_any_ack [OF h1 h2 h3 h4, of block_events] h1 h2 h3 h4
  show ?thesis by simp
qed

end
